theory Spec2Isabelle
  imports Main "HOL-Library.AList"
begin

section \<open>Python values and string helpers\<close>

text \<open>
  The values that flow through \<^verbatim>\<open>unlibmd.py\<close>: \<^verbatim>\<open>None\<close>, strings, integers, lists and
  dictionaries. A dictionary is an association list in insertion order; assignment
  \<^verbatim>\<open>d[k] = v\<close> is \<open>AList.update k v d\<close> (the value is replaced in place when the key
  exists, the pair is appended otherwise), which is what a Python \<^verbatim>\<open>dict\<close> does.
\<close>

datatype pyval =
    PyNone
  | PyStr string
  | PyInt int
  | PyList "pyval list"
  | PyDict "(pyval \<times> pyval) list"

text \<open>A value that is a string or \<^verbatim>\<open>None\<close> (an element's text, an attribute read with \<^verbatim>\<open>get\<close>).\<close>

definition opt_str :: "string option \<Rightarrow> pyval" where
  "opt_str t = (case t of None \<Rightarrow> PyNone | Some s \<Rightarrow> PyStr s)"

text \<open>
  The exceptions that leave a function are the ones its code does not catch.

  \<^verbatim>\<open>len(v)\<close>: the number of elements of a list, of keys of a dictionary, of characters of
  a string; \<^verbatim>\<open>TypeError\<close> for \<^verbatim>\<open>None\<close> and for an integer.
\<close>

datatype exn =
    ExpatError
  | KeyError string
  | ValueError
  | TypeError
  | AttributeError
  | RequestException string

fun py_len :: "pyval \<Rightarrow> exn + nat" where
  "py_len (PyList vs) = Inr (length vs)"
| "py_len (PyDict kvs) = Inr (length kvs)"
| "py_len (PyStr s) = Inr (length s)"
| "py_len v = Inl TypeError"

text \<open>
  What a \<^verbatim>\<open>for\<close> loop or \<^verbatim>\<open>list.extend\<close> takes out of a value: the elements of a list,
  the keys of a dictionary, the characters of a string, each as a string of length one.
\<close>

fun py_iter :: "pyval \<Rightarrow> exn + pyval list" where
  "py_iter (PyList vs) = Inr vs"
| "py_iter (PyDict kvs) = Inr (map fst kvs)"
| "py_iter (PyStr s) = Inr (map (\<lambda>c. PyStr [c]) s)"
| "py_iter v = Inl TypeError"

text \<open>\<^verbatim>\<open>str.startswith\<close>.\<close>

fun startswith :: "string \<Rightarrow> string \<Rightarrow> bool" where
  "startswith s [] = True"
| "startswith [] (p # ps) = False"
| "startswith (c # cs) (p # ps) = (c = p \<and> startswith cs ps)"

text \<open>
  \<^verbatim>\<open>s.replace(old, '')\<close> for a non-empty \<^verbatim>\<open>old\<close>: every occurrence of \<^verbatim>\<open>old\<close> is
  deleted, scanning from the left without overlap.
\<close>

fun remove_all :: "string \<Rightarrow> string \<Rightarrow> string" where
  "remove_all old [] = []"
| "remove_all old (c # cs) =
     (if old \<noteq> [] \<and> startswith (c # cs) old
      then remove_all old (drop (length old) (c # cs))
      else c # remove_all old cs)"

text \<open>
  \<^verbatim>\<open>str.isspace\<close> on one character, for the characters of the Latin-1 range: tab, line
  feed, vertical tab, form feed, carriage return, the four separators \<^verbatim>\<open>0x1c\<close> to
  \<^verbatim>\<open>0x1f\<close>, space, \<^verbatim>\<open>0x85\<close> and \<^verbatim>\<open>0xa0\<close>.
\<close>

definition isspace :: "char \<Rightarrow> bool" where
  "isspace c = (let n = of_char c :: nat in
     (9 \<le> n \<and> n \<le> 13) \<or> (28 \<le> n \<and> n \<le> 32) \<or> n = 133 \<or> n = 160)"

text \<open>\<^verbatim>\<open>str.strip()\<close>: leading and trailing whitespace removed.\<close>

definition strip :: "string \<Rightarrow> string" where
  "strip s = rev (dropWhile isspace (rev (dropWhile isspace s)))"

section \<open>Post-processing: \<^verbatim>\<open>convert_me_id\<close>\<close>

text \<open>
  \<^verbatim>\<open>
  def convert_me_id(column_value):
      if isinstance(column_value, list):
          for value in column_value:
              if isinstance(value, str) and value.startswith('(DHL)'):
                  return value.replace('(DHL)', '').strip()
          return None
      return column_value
  \<close>
\<close>

fun convert_me_id_loop :: "pyval list \<Rightarrow> pyval" where
  "convert_me_id_loop [] = PyNone"
| "convert_me_id_loop (PyStr s # vs) =
     (if startswith s ''(DHL)'' then PyStr (strip (remove_all ''(DHL)'' s))
      else convert_me_id_loop vs)"
| "convert_me_id_loop (v # vs) = convert_me_id_loop vs"

fun convert_me_id :: "pyval \<Rightarrow> pyval" where
  "convert_me_id (PyList vs) = convert_me_id_loop vs"
| "convert_me_id v = v"

section \<open>Query compiler: \<^verbatim>\<open>get_query\<close>\<close>

text \<open>
  A FieldSpec is the dictionary the caller writes. \<^verbatim>\<open>get_query\<close> reads the keys
  \<^verbatim>\<open>field\<close>, \<^verbatim>\<open>code\<close> and \<^verbatim>\<open>ind1\<close> (all three must be present; \<^verbatim>\<open>code\<close> and
  \<^verbatim>\<open>ind1\<close> may hold \<^verbatim>\<open>None\<close>), stores the selector under the key \<^verbatim>\<open>query\<close> of the same
  dictionary and returns that dictionary. The compiled dictionary is the record
  extended by \<open>query\<close>; compiling an already compiled dictionary overwrites the key.
\<close>

record fieldspec =
  field :: string
  element :: string
  code :: "string option"
  ind1 :: "string option"
  name :: string

record compiled_query = fieldspec +
  query :: string

text \<open>The apostrophe that delimits a value inside a selector.\<close>

abbreviation (input) apos :: string where
  "apos \<equiv> [CHR 0x27]"

text \<open>Truthiness of a value that is a string or \<^verbatim>\<open>None\<close>: \<^verbatim>\<open>None\<close> and \<^verbatim>\<open>''\<close> are false.\<close>

definition truthy :: "string option \<Rightarrow> bool" where
  "truthy v = (case v of None \<Rightarrow> False | Some s \<Rightarrow> s \<noteq> [])"

text \<open>
  \<^verbatim>\<open>
  query = f"datafield[@tag='{field}']"
  if ind1:
      query += f"[@ind1='{ind1}']"
  if code or code == "":
      query += f"/subfield[@code='{code}']"
  element["query"] = query
  return element
  \<close>
\<close>

definition get_query :: "'a fieldspec_scheme \<Rightarrow> compiled_query" where
  "get_query e =
     (let query0 = ''datafield[@tag='' @ apos @ field e @ apos @ '']'';
          query1 = (if truthy (ind1 e)
                    then query0 @ ''[@ind1='' @ apos @ the (ind1 e) @ apos @ '']''
                    else query0);
          query2 = (if truthy (code e) \<or> code e = Some []
                    then query1 @ ''/subfield[@code='' @ apos @ the (code e) @ apos @ '']''
                    else query1)
      in \<lparr>field = field e, element = element e, code = code e, ind1 = ind1 e,
          name = name e, query = query2\<rparr>)"

section \<open>Records as element trees\<close>

text \<open>
  A RawRecord is an element tree as \<^verbatim>\<open>lxml\<close> and \<^verbatim>\<open>ElementTree\<close> hold it: a tag, the
  attributes, the text before the first child (\<^verbatim>\<open>None\<close> when there is none) and the
  children in document order.
\<close>

datatype xml =
  Element (tag: string) (attrib: "(string \<times> string) list") (text_of: "string option")
    (children: "xml list")

text \<open>\<^verbatim>\<open>e.get(k)\<close>: the attribute, or \<^verbatim>\<open>None\<close>.\<close>

definition get_attr :: "xml \<Rightarrow> string \<Rightarrow> string option" where
  "get_attr e k = map_of (attrib e) k"

text \<open>\<^verbatim>\<open>e.find(t)\<close> for a plain tag \<^verbatim>\<open>t\<close>: the first child with that tag.\<close>

definition find_child :: "xml \<Rightarrow> string \<Rightarrow> xml option" where
  "find_child e t = find (\<lambda>c. tag c = t) (children e)"

text \<open>\<^verbatim>\<open>e.findall(t)\<close> for a plain tag \<^verbatim>\<open>t\<close>: the children with that tag.\<close>

definition findall_children :: "xml \<Rightarrow> string \<Rightarrow> xml list" where
  "findall_children e t = filter (\<lambda>c. tag c = t) (children e)"

text \<open>\<^verbatim>\<open>record.find("controlfield[@tag='001']")\<close>.\<close>

definition find_controlfield_001 :: "xml \<Rightarrow> xml option" where
  "find_controlfield_001 record =
     find (\<lambda>c. tag c = ''controlfield'' \<and> get_attr c ''tag'' = Some ''001'') (children record)"

text \<open>The descendants of an element in document order, the element itself excluded.\<close>

fun descendants :: "xml \<Rightarrow> xml list" where
  "descendants (Element t a x cs) = concat (map (\<lambda>c. c # descendants c) cs)"

text \<open>\<^verbatim>\<open>e.xpath(".//subfield")\<close>: the descendants tagged \<^verbatim>\<open>subfield\<close>.\<close>

definition xpath_subfields :: "xml \<Rightarrow> xml list" where
  "xpath_subfields e = filter (\<lambda>d. tag d = ''subfield'') (descendants e)"

text \<open>
  The dictionary comprehension \<^verbatim>\<open>{e.get("code"): e.text for e in x.xpath(".//subfield")}\<close>:
  the entries are written in document order, a later subfield with the same code
  replaces the value of an earlier one.
\<close>

definition subfield_dict :: "xml \<Rightarrow> (pyval \<times> pyval) list" where
  "subfield_dict x =
     fold (\<lambda>e d. AList.update (opt_str (get_attr e ''code'')) (opt_str (text_of e)) d)
       (xpath_subfields x) []"

section \<open>Record extractor: \<^verbatim>\<open>extract_xml\<close>\<close>

text \<open>
  \<^verbatim>\<open>record.findall(element["query"])\<close> hands the selector string to the path engine of
  \<^verbatim>\<open>lxml\<close>. The engine is the parameter \<open>findall\<close>: it maps a record and a path to the
  matched elements, in document order. What follows holds for every engine.

  \<^verbatim>\<open>
  xml_element = record.findall(element["query"])
  if len(xml_element) == 1:
      if element["element"] == "field":
          v = [{e.get("code"): e.text for e in xml_element[0].xpath(".//subfield")}]
      else:
          v = [xml_element[0].text]
  elif len(xml_element) > 1:
      if element["element"] == "field":
          code_value_list = []
          for datafield in xml_element:
              code_value_list.extend(
                  [{e.get("code"): e.text for e in datafield.xpath(".//subfield")}])
          v = code_value_list
      else:
          v = [e.text for e in xml_element]
  else:
      v = None
  \<close>
\<close>

definition extract_value :: "(xml \<Rightarrow> string \<Rightarrow> xml list) \<Rightarrow> xml \<Rightarrow> compiled_query \<Rightarrow> pyval" where
  "extract_value findall record e =
     (let xml_element = findall record (query e) in
      if length xml_element = 1 then
        (if element e = ''field''
         then PyList [PyDict (subfield_dict (xml_element ! 0))]
         else PyList [opt_str (text_of (xml_element ! 0))])
      else if length xml_element > 1 then
        (if element e = ''field''
         then PyList (map (\<lambda>datafield. PyDict (subfield_dict datafield)) xml_element)
         else PyList (map (\<lambda>e. opt_str (text_of e)) xml_element))
      else PyNone)"

text \<open>
  \<^verbatim>\<open>
  dictionary_record = {}
  elements = [get_query(e) for e in elements]
  control_field = record.find("controlfield[@tag='001']")
  dictionary_record["undl_id"] = control_field.text if control_field is not None else None
  for element in elements:
      ...
      dictionary_record[element["name"]] = v
  return dictionary_record
  \<close>
\<close>

definition extract_xml ::
  "(xml \<Rightarrow> string \<Rightarrow> xml list) \<Rightarrow> xml \<Rightarrow> 'a fieldspec_scheme list \<Rightarrow> (string \<times> pyval) list" where
  "extract_xml findall record elements =
     (let elements = map get_query elements;
          control_field = find_controlfield_001 record;
          dictionary_record =
            [(''undl_id'', (case control_field of Some c \<Rightarrow> opt_str (text_of c) | None \<Rightarrow> PyNone))]
      in fold (\<lambda>element d. AList.update (name element) (extract_value findall record element) d)
           elements dictionary_record)"

subsection \<open>A reference path engine for MARC selectors\<close>

text \<open>
  The meaning of the selectors that \<open>get_query\<close> writes, for running the extractor on
  concrete records: \<^verbatim>\<open>datafield[@tag='F']\<close> selects the children of the record tagged
  \<^verbatim>\<open>datafield\<close> whose attribute \<^verbatim>\<open>tag\<close> is \<^verbatim>\<open>F\<close>, \<^verbatim>\<open>[@ind1='I']\<close> keeps those whose
  attribute \<^verbatim>\<open>ind1\<close> is \<^verbatim>\<open>I\<close>, and \<^verbatim>\<open>/subfield[@code='C']\<close> steps to their children
  tagged \<^verbatim>\<open>subfield\<close> whose attribute \<^verbatim>\<open>code\<close> is \<^verbatim>\<open>C\<close>. A path of another form selects
  nothing here.
\<close>

fun strip_prefix :: "string \<Rightarrow> string \<Rightarrow> string option" where
  "strip_prefix [] s = Some s"
| "strip_prefix (p # ps) [] = None"
| "strip_prefix (p # ps) (c # cs) = (if p = c then strip_prefix ps cs else None)"

fun quoted :: "string \<Rightarrow> (string \<times> string) option" where
  "quoted [] = None"
| "quoted (c # cs) =
     (if c = CHR 0x27 then Some ([], cs)
      else (case quoted cs of None \<Rightarrow> None | Some (v, r) \<Rightarrow> Some (c # v, r)))"

definition attr_pred :: "string \<Rightarrow> string \<Rightarrow> (string \<times> string) option" where
  "attr_pred a s =
     (case strip_prefix (''[@'' @ a @ ''='' @ apos) s of
        None \<Rightarrow> None
      | Some r \<Rightarrow>
          (case quoted r of
             None \<Rightarrow> None
           | Some (v, r') \<Rightarrow>
               (case strip_prefix '']'' r' of None \<Rightarrow> None | Some r'' \<Rightarrow> Some (v, r''))))"

definition parse_query :: "string \<Rightarrow> (string \<times> string option \<times> string option) option" where
  "parse_query s =
     (case strip_prefix ''datafield'' s of
        None \<Rightarrow> None
      | Some s1 \<Rightarrow>
          (case attr_pred ''tag'' s1 of
             None \<Rightarrow> None
           | Some (f, s2) \<Rightarrow>
               (let (i, s3) = (case attr_pred ''ind1'' s2 of
                                 None \<Rightarrow> (None, s2)
                               | Some (v, r) \<Rightarrow> (Some v, r))
                in if s3 = [] then Some (f, i, None)
                   else (case strip_prefix ''/subfield'' s3 of
                           None \<Rightarrow> None
                         | Some s4 \<Rightarrow>
                             (case attr_pred ''code'' s4 of
                                None \<Rightarrow> None
                              | Some (c, s5) \<Rightarrow> if s5 = [] then Some (f, i, Some c) else None)))))"

definition marc_findall :: "xml \<Rightarrow> string \<Rightarrow> xml list" where
  "marc_findall record q =
     (case parse_query q of
        None \<Rightarrow> []
      | Some (f, i, c) \<Rightarrow>
          (let datafields =
                 filter (\<lambda>d. tag d = ''datafield'' \<and> get_attr d ''tag'' = Some f \<and>
                             (case i of None \<Rightarrow> True | Some v \<Rightarrow> get_attr d ''ind1'' = Some v))
                   (children record)
           in case c of
                None \<Rightarrow> datafields
              | Some cv \<Rightarrow>
                  concat (map (\<lambda>d. filter (\<lambda>s. tag s = ''subfield'' \<and> get_attr s ''code'' = Some cv)
                                       (children d)) datafields)))"

subsection \<open>A sample record and sample FieldSpecs\<close>

definition example_record :: xml where
  "example_record = Element ''record'' [] None
     [Element ''controlfield'' [(''tag'', ''001'')] (Some ''4711'') [],
      Element ''datafield'' [(''tag'', ''245''), (''ind1'', ''1'')] None
        [Element ''subfield'' [(''code'', ''a'')] (Some ''x'') [],
         Element ''subfield'' [(''code'', ''b'')] (Some ''y'') []],
      Element ''datafield'' [(''tag'', ''650'')] None
        [Element ''subfield'' [(''code'', ''a'')] (Some ''s1'') []],
      Element ''datafield'' [(''tag'', ''650'')] None
        [Element ''subfield'' [(''code'', ''a'')] (Some ''s2'') [],
         Element ''subfield'' [(''code'', ''a'')] (Some ''s3'') []],
      Element ''datafield'' [(''tag'', ''999'')] None []]"

definition spec_title :: fieldspec where
  "spec_title = \<lparr>field = ''245'', element = ''field'', code = None, ind1 = None, name = ''title''\<rparr>"

definition spec_title_b :: fieldspec where
  "spec_title_b =
     \<lparr>field = ''245'', element = ''subfield'', code = Some ''b'', ind1 = Some ''1'', name = ''b''\<rparr>"

definition spec_subjects :: fieldspec where
  "spec_subjects =
     \<lparr>field = ''650'', element = ''subfield'', code = Some ''a'', ind1 = None, name = ''subjects''\<rparr>"

definition spec_subject_fields :: fieldspec where
  "spec_subject_fields =
     \<lparr>field = ''650'', element = ''field'', code = None, ind1 = None, name = ''subject_fields''\<rparr>"

definition spec_local :: fieldspec where
  "spec_local = \<lparr>field = ''999'', element = ''field'', code = None, ind1 = None, name = ''local''\<rparr>"

definition spec_author :: fieldspec where
  "spec_author =
     \<lparr>field = ''100'', element = ''subfield'', code = Some ''a'', ind1 = None, name = ''author''\<rparr>"

definition spec_shadow :: fieldspec where
  "spec_shadow =
     \<lparr>field = ''245'', element = ''subfield'', code = Some ''a'', ind1 = None, name = ''undl_id''\<rparr>"

definition example_specs :: "fieldspec list" where
  "example_specs =
     [spec_title, spec_title_b, spec_subjects, spec_subject_fields, spec_local, spec_author]"

section \<open>The search endpoint as a script of replies\<close>

text \<open>
  SearchParameters: the dictionary sent as query parameters. A value is a string or
  \<^verbatim>\<open>None\<close> (the driver stores \<^verbatim>\<open>log[-1]\<close> under \<^verbatim>\<open>search_id\<close>, which is \<^verbatim>\<open>None\<close> when the page
  had no cursor).
\<close>

type_synonym params = "(string \<times> string option) list"

text \<open>
  What the decoders make of a response body. The body text is read by three library
  calls: \<^verbatim>\<open>r.json()\<close> (only whether it raises \<^verbatim>\<open>ValueError\<close> matters),
  \<^verbatim>\<open>xmltodict.parse(r.text)\<close> and \<^verbatim>\<open>ET.fromstring(r.text)\<close>. A body is the triple of their
  results; no relation between the three is assumed.

  The dictionary \<^verbatim>\<open>r_dict['response']\<close> is an envelope: the entry \<^verbatim>\<open>total\<close> (absent,
  \<^verbatim>\<open>None\<close>, something \<^verbatim>\<open>int\<close> rejects, or an integer), the entry \<^verbatim>\<open>search_id\<close> (\<open>None\<close> when
  the key is absent) and the entry \<^verbatim>\<open>collection\<close> (absent, \<^verbatim>\<open>None\<close>, or a dictionary whose
  entry \<^verbatim>\<open>record\<close> is absent or holds what \<^verbatim>\<open>xmltodict\<close> made of the \<^verbatim>\<open>record\<close>
  elements). For several \<^verbatim>\<open>record\<close> elements that value is the list of the records; for
  a single element it is the one record itself, not a list: a dictionary with one key
  for each kind of child, a string when the element holds only text, \<^verbatim>\<open>None\<close> when it is
  empty. A \<^verbatim>\<open>collection\<close> element that holds text only (a string, on which \<^verbatim>\<open>in\<close> looks for a
  substring) is left out.
\<close>

datatype total_field = TotalAbsent | TotalNone | TotalNotInt | TotalInt int

datatype collection_field = CollectionAbsent | CollectionNone | Collection "pyval option"

record envelope =
  env_total :: total_field
  env_search_id :: "string option"
  env_collection :: "collection_field"

record body =
  json_ok :: bool
  xmltodict_parse :: "envelope option"
  fromstring :: "xml option"

text \<open>
  \<^verbatim>\<open>requests.get\<close> either raises a \<^verbatim>\<open>RequestException\<close> with a message or returns a
  response with a status code and a body.
\<close>

datatype reply = RequestFailed string | Response int "body"

text \<open>
  The world outside the program: the replies the endpoint will give, in order, and the
  trace of what the program has done so far: each request with the parameters sent and
  the reply received, and each pause with its length in seconds. The credential read by
  \<^verbatim>\<open>get_key\<close>, the \<^verbatim>\<open>Authorization\<close> header and the progress messages are left out.
  A run that asks for a reply when the script is used up has no result (\<open>None\<close>).
\<close>

datatype event = Get params "reply" | Sleep nat

record world =
  script :: "reply list"
  trace :: "event list"

definition requests_get :: "params \<Rightarrow> world \<Rightarrow> (reply \<times> world) option" where
  "requests_get p w =
     (case script w of
        [] \<Rightarrow> None
      | r # rs \<Rightarrow> Some (r, \<lparr>script = rs, trace = trace w @ [Get p r]\<rparr>))"

definition sleep :: "nat \<Rightarrow> world \<Rightarrow> world" where
  "sleep n w = w\<lparr>trace := trace w @ [Sleep n]\<rparr>"

text \<open>The requests of a trace, each with its reply.\<close>

fun exchanges :: "event list \<Rightarrow> (params \<times> reply) list" where
  "exchanges [] = []"
| "exchanges (Get p r # es) = (p, r) # exchanges es"
| "exchanges (Sleep n # es) = exchanges es"

text \<open>\<^verbatim>\<open>str(n)\<close> for an integer, as the f-strings print the status code.\<close>

definition digit :: "nat \<Rightarrow> char" where
  "digit n = char_of (48 + n)"

fun str_nat :: "nat \<Rightarrow> string" where
  "str_nat n = (if n < 10 then [digit n] else str_nat (n div 10) @ [digit (n mod 10)])"

declare str_nat.simps [simp del]

definition str_int :: "int \<Rightarrow> string" where
  "str_int i = (if i < 0 then ''-'' @ str_nat (nat (- i)) else str_nat (nat i))"

section \<open>Paginated fetcher: \<^verbatim>\<open>undl_request\<close>\<close>

text \<open>The list \<^verbatim>\<open>log = [status, total, len(records), error, search_id]\<close>.\<close>

record log =
  log_status :: "int option"
  log_total :: "int option"
  log_count :: nat
  log_error :: "string option"
  log_search_id :: "string option"

definition too_many_requests :: string where
  "too_many_requests = ''Let'' @ apos @ ''s wait 5 minutes! Too many requests, they say!''"

text \<open>
  The branch for status 200, after \<^verbatim>\<open>xmltodict.parse\<close> has returned:
  \<^verbatim>\<open>
  total = int(r_dict['response']['total'])
  try:
      search_id = r_dict['response']['search_id']
  except KeyError:
      print("No records, check your search parameters!")
  if 'record' in r_dict['response']['collection']:
      records = r_dict['response']['collection']['record']
  else:
      error = f"{status}: No records"
  break
  \<close>
  followed by \<^verbatim>\<open>log = [status, total, len(records), error, search_id]\<close>, which is
  outside the \<^verbatim>\<open>try\<close>. \<open>records\<close> starts as the empty list and is otherwise the value of
  the entry \<^verbatim>\<open>record\<close> as it is, list or not.
\<close>

definition decode_page :: "int \<Rightarrow> string option \<Rightarrow> envelope \<Rightarrow> exn + (log \<times> pyval)" where
  "decode_page status error env =
     (case env_total env of
        TotalAbsent \<Rightarrow> Inl (KeyError ''total'')
      | TotalNone \<Rightarrow> Inl TypeError
      | TotalNotInt \<Rightarrow> Inl ValueError
      | TotalInt total' \<Rightarrow>
          (let search_id = env_search_id env in
           case env_collection env of
             CollectionAbsent \<Rightarrow> Inl (KeyError ''collection'')
           | CollectionNone \<Rightarrow> Inl TypeError
           | Collection None \<Rightarrow>
               Inr (\<lparr>log_status = Some status, log_total = Some total', log_count = 0,
                     log_error = Some (str_int status @ '': No records''),
                     log_search_id = search_id\<rparr>, PyList [])
           | Collection (Some records) \<Rightarrow>
               (case py_len records of
                  Inl x \<Rightarrow> Inl x
                | Inr n \<Rightarrow>
                    Inr (\<lparr>log_status = Some status, log_total = Some total', log_count = n,
                          log_error = error, log_search_id = search_id\<rparr>, records))))"

text \<open>
  The retry loop, with the \<^verbatim>\<open>except requests.exceptions.RequestException\<close> around it and
  the construction of the log after it:
  \<^verbatim>\<open>
  retry_count = 0
  while retry_count < 2:
      r = requests.get(url, params=parameters, headers=..., stream=True)
      status = r.status_code
      if status == 429:
          error = "Let's wait 5 minutes! Too many requests, they say!"
          retry_count += 1
          time.sleep(300)
          continue
      elif status != 200:
          try:
              r_dict = r.json()
          except ValueError:
              error = f"{status}: Unable to parse error message"
          break
      elif status == 200:
          r_dict = xmltodict.parse(r.text, encoding='UTF-8')
          ...
          break
  \<close>
  The loop variables are \<open>retry_count\<close>, \<open>status\<close> and \<open>error\<close>; \<open>total\<close>, \<open>search_id\<close> and
  \<open>records\<close> are written in the last iteration only.
\<close>

function undl_loop ::
  "params \<Rightarrow> nat \<Rightarrow> int option \<Rightarrow> string option \<Rightarrow> world \<Rightarrow>
   world \<times> (exn + (log \<times> pyval)) option" where
  "undl_loop parameters retry_count status error w =
     (if retry_count < 2 then
        (case requests_get parameters w of
           None \<Rightarrow> (w, None)
         | Some (RequestFailed e, w1) \<Rightarrow>
             (w1, Some (Inr (\<lparr>log_status = status, log_total = None, log_count = 0,
                              log_error = Some e, log_search_id = None\<rparr>, PyList [])))
         | Some (Response st b, w1) \<Rightarrow>
             if st = 429 then
               undl_loop parameters (retry_count + 1) (Some st) (Some too_many_requests)
                 (sleep 300 w1)
             else if st \<noteq> 200 then
               (w1, Some (Inr (\<lparr>log_status = Some st, log_total = None, log_count = 0,
                                log_error = (if json_ok b then error
                                             else Some (str_int st @
                                                    '': Unable to parse error message'')),
                                log_search_id = None\<rparr>, PyList [])))
             else
               (case xmltodict_parse b of
                  None \<Rightarrow> (w1, Some (Inl ExpatError))
                | Some env \<Rightarrow> (w1, Some (decode_page st error env))))
      else (w, Some (Inr (\<lparr>log_status = status, log_total = None, log_count = 0,
                           log_error = error, log_search_id = None\<rparr>, PyList []))))"
  by pat_completeness auto
termination
  by (relation "measure (\<lambda>(parameters, retry_count, status, error, w). 2 - retry_count)") auto

declare undl_loop.simps [simp del]

text \<open>
  \<^verbatim>\<open>undl_request(parameters)\<close>: the caller's dictionary itself gets the entry
  \<^verbatim>\<open>format = "xml"\<close>, so the dictionary is returned with the result. The optional
  \<^verbatim>\<open>result_queue\<close> is not used by the driver and is left out.
\<close>

definition undl_request ::
  "params \<Rightarrow> world \<Rightarrow> params \<times> world \<times> (exn + (log \<times> pyval)) option" where
  "undl_request parameters w =
     (let parameters = AList.update ''format'' (Some ''xml'') parameters;
          (w1, result) = undl_loop parameters 0 None None w
      in (parameters, w1, result))"

section \<open>Batch driver: \<^verbatim>\<open>get_records_json\<close>\<close>

text \<open>
  \<^verbatim>\<open>
  search_parameters = parameters.copy()
  all_records = []
  total = None
  logs = []
  while len(all_records) != total:
      log, records = undl_request(search_parameters)
      all_records.extend(records)
      logs.append(log)
      if total is None:
          total = log[1]
          search_parameters["search_id"] = log[-1]
  return logs, all_records
  \<close>
  \<^verbatim>\<open>extend\<close> appends what iterating over \<open>records\<close> gives: the records of a list, but the
  keys of a dictionary and the characters of a string.
  The loop may run for ever; the model counts iterations down from \<open>fuel\<close> and has no
  result when the fuel is used up. Every iteration that goes on has taken a reply from
  the script, so one more than the length of the script is enough fuel.
\<close>

fun get_records_json_loop ::
  "nat \<Rightarrow> params \<Rightarrow> pyval list \<Rightarrow> int option \<Rightarrow> log list \<Rightarrow> world \<Rightarrow>
   world \<times> (exn + (log list \<times> pyval list)) option" where
  "get_records_json_loop 0 search_parameters all_records total' logs w = (w, None)"
| "get_records_json_loop (Suc fuel) search_parameters all_records total' logs w =
     (if Some (int (length all_records)) \<noteq> total' then
        (case undl_request search_parameters w of
           (search_parameters, w1, None) \<Rightarrow> (w1, None)
         | (search_parameters, w1, Some (Inl x)) \<Rightarrow> (w1, Some (Inl x))
         | (search_parameters, w1, Some (Inr (log, records))) \<Rightarrow>
             (case py_iter records of
                Inl x \<Rightarrow> (w1, Some (Inl x))
              | Inr items \<Rightarrow>
                  (let all_records = all_records @ items;
                       logs = logs @ [log]
                   in if total' = None
                      then get_records_json_loop fuel
                             (AList.update ''search_id'' (log_search_id log) search_parameters)
                             all_records (log_total log) logs w1
                      else get_records_json_loop fuel search_parameters all_records total' logs
                             w1)))
      else (w, Some (Inr (logs, all_records))))"

definition get_records_json ::
  "params \<Rightarrow> world \<Rightarrow> world \<times> (exn + (log list \<times> pyval list)) option" where
  "get_records_json parameters w =
     get_records_json_loop (Suc (length (script w))) parameters [] None [] w"

section \<open>The MARC XML fetcher: \<^verbatim>\<open>get_records_xml\<close>\<close>

text \<open>
  One request of the loop, with the single retry after a 429:
  \<^verbatim>\<open>
  r = requests.get(url, params=params, headers=...)
  if r.status_code != 200:
      if r.status_code == 429:
          time.sleep(300)
          r = requests.get(url, params=params, headers=...)
      else:
          break
  \<close>
  The result is the body to parse, or \<open>None\<close> for the \<^verbatim>\<open>break\<close>. The status of the second
  response is not looked at. A \<^verbatim>\<open>RequestException\<close> is not caught here.
\<close>

definition xml_fetch :: "params \<Rightarrow> world \<Rightarrow> world \<times> (exn + body option) option" where
  "xml_fetch params w =
     (case requests_get params w of
        None \<Rightarrow> (w, None)
      | Some (RequestFailed e, w1) \<Rightarrow> (w1, Some (Inl (RequestException e)))
      | Some (Response st b, w1) \<Rightarrow>
          if st \<noteq> 200 then
            (if st = 429 then
               (case requests_get params (sleep 300 w1) of
                  None \<Rightarrow> (sleep 300 w1, None)
                | Some (RequestFailed e, w2) \<Rightarrow> (w2, Some (Inl (RequestException e)))
                | Some (Response st2 b2, w2) \<Rightarrow> (w2, Some (Inr (Some b2))))
             else (w1, Some (Inr None)))
          else (w1, Some (Inr (Some b))))"

text \<open>
  What the loop does with a parsed response:
  \<^verbatim>\<open>
  search_id = response.find('search_id').text
  if not total:
      total = response.find('total').text
      print("Total nb. of records: " + total)
  collection = response.find('collection')
  if not collection:
      break
  for record in collection.findall("record"):
      all_records.append(record)
  \<close>
  \<^verbatim>\<open>find\<close> returns \<^verbatim>\<open>None\<close> when there is no such child, and \<^verbatim>\<open>.text\<close> of \<^verbatim>\<open>None\<close> raises
  \<^verbatim>\<open>AttributeError\<close>; the concatenation with a \<^verbatim>\<open>None\<close> text raises \<^verbatim>\<open>TypeError\<close>; an
  element without children is false.
\<close>

datatype page_step = Break | Raise exn | Continue "string option" "string option" "xml list"

definition xml_page :: "string option \<Rightarrow> xml \<Rightarrow> page_step" where
  "xml_page total' response =
     (case find_child response ''search_id'' of
        None \<Rightarrow> Raise AttributeError
      | Some s \<Rightarrow>
          (let search_id = text_of s;
               total_step =
                 (if \<not> truthy total' then
                    (case find_child response ''total'' of
                       None \<Rightarrow> Inl AttributeError
                     | Some t \<Rightarrow>
                         (case text_of t of None \<Rightarrow> Inl TypeError | Some x \<Rightarrow> Inr (Some x)))
                  else Inr total')
           in case total_step of
                Inl x \<Rightarrow> Raise x
              | Inr total' \<Rightarrow>
                  (case find_child response ''collection'' of
                     None \<Rightarrow> Break
                   | Some collection \<Rightarrow>
                       if children collection = [] then Break
                       else Continue search_id total' (findall_children collection ''record''))))"

text \<open>
  \<^verbatim>\<open>
  while True:
      if search_id:
          params['search_id'] = search_id
      else:
          params = parameters.copy()
      ... the request ...
      try:
          response = ET.fromstring(r.text.replace(...))
      except ET.ParseError as e:
          break
      ... the page ...
  \<close>
  \<open>params\<close> is unbound before the first iteration, where \<open>search_id\<close> is \<^verbatim>\<open>None\<close> and the
  copy is taken; the model starts it as the caller's dictionary.
\<close>

fun get_records_xml_loop ::
  "nat \<Rightarrow> params \<Rightarrow> string option \<Rightarrow> string option \<Rightarrow> xml list \<Rightarrow> params \<Rightarrow> world \<Rightarrow>
   world \<times> (exn + xml list) option" where
  "get_records_xml_loop 0 parameters search_id total' all_records params w = (w, None)"
| "get_records_xml_loop (Suc fuel) parameters search_id total' all_records params w =
     (let params = (if truthy search_id then AList.update ''search_id'' search_id params
                    else parameters)
      in case xml_fetch params w of
           (w1, None) \<Rightarrow> (w1, None)
         | (w1, Some (Inl x)) \<Rightarrow> (w1, Some (Inl x))
         | (w1, Some (Inr None)) \<Rightarrow> (w1, Some (Inr all_records))
         | (w1, Some (Inr (Some b))) \<Rightarrow>
             (case fromstring b of
                None \<Rightarrow> (w1, Some (Inr all_records))
              | Some response \<Rightarrow>
                  (case xml_page total' response of
                     Raise x \<Rightarrow> (w1, Some (Inl x))
                   | Break \<Rightarrow> (w1, Some (Inr all_records))
                   | Continue search_id total' records \<Rightarrow>
                       get_records_xml_loop fuel parameters search_id total'
                         (all_records @ records) params w1)))"

text \<open>
  The result is the tree whose root \<^verbatim>\<open>collection\<close> holds the records gathered.
\<close>

definition get_records_xml :: "params \<Rightarrow> world \<Rightarrow> world \<times> (exn + xml) option" where
  "get_records_xml parameters w =
     (case get_records_xml_loop (Suc (length (script w))) parameters None None [] parameters w of
        (w1, None) \<Rightarrow> (w1, None)
      | (w1, Some (Inl x)) \<Rightarrow> (w1, Some (Inl x))
      | (w1, Some (Inr all_records)) \<Rightarrow>
          (w1, Some (Inr (Element ''collection'' [] None all_records))))"

subsection \<open>Sample replies\<close>

text \<open>A response with status 200 whose body decodes to the given envelope.\<close>

definition page :: "int \<Rightarrow> string option \<Rightarrow> pyval option \<Rightarrow> reply" where
  "page total' search_id records =
     Response 200
       \<lparr>json_ok = False,
        xmltodict_parse = Some \<lparr>env_total = TotalInt total', env_search_id = search_id,
                                 env_collection = Collection records\<rparr>,
        fromstring = None\<rparr>"

text \<open>A response whose body is read by \<^verbatim>\<open>ET.fromstring\<close> as the given tree.\<close>

definition xml_reply :: "int \<Rightarrow> xml option \<Rightarrow> reply" where
  "xml_reply st t = Response st \<lparr>json_ok = False, xmltodict_parse = None, fromstring = t\<rparr>"

text \<open>A response that carries an error message in JSON.\<close>

definition json_error_reply :: "int \<Rightarrow> reply" where
  "json_error_reply st = Response st \<lparr>json_ok = True, xmltodict_parse = None, fromstring = None\<rparr>"

definition xml_response :: "string \<Rightarrow> string \<Rightarrow> xml list \<Rightarrow> xml" where
  "xml_response search_id total' records =
     Element ''response'' [] None
       [Element ''search_id'' [] (Some search_id) [],
        Element ''total'' [] (Some total') [],
        Element ''collection'' [] None records]"

subsection \<open>The cursor a request should carry\<close>

text \<open>
  The cursor that a reply hands to the MARC XML fetcher: the text of the \<^verbatim>\<open>search_id\<close>
  element of a response with status 200 whose body parses, when that text is not empty.
\<close>

definition xml_cursor :: "reply \<Rightarrow> string option" where
  "xml_cursor r =
     (case r of
        RequestFailed e \<Rightarrow> None
      | Response st b \<Rightarrow>
          if st = 200 then
            (case fromstring b of
               None \<Rightarrow> None
             | Some response \<Rightarrow>
                 (case find_child response ''search_id'' of
                    None \<Rightarrow> None
                  | Some s \<Rightarrow> if truthy (text_of s) then text_of s else None))
          else None)"

text \<open>
  The cursor that a reply hands to \<^verbatim>\<open>undl_request\<close>: the entry \<^verbatim>\<open>search_id\<close> of the envelope
  of a response with status 200.
\<close>

definition json_cursor :: "reply \<Rightarrow> string option" where
  "json_cursor r =
     (case r of
        RequestFailed e \<Rightarrow> None
      | Response st b \<Rightarrow>
          if st = 200 then
            (case xmltodict_parse b of None \<Rightarrow> None | Some env \<Rightarrow> env_search_id env)
          else None)"

text \<open>
  The rule of the specification for two requests in a row: when the reply to the first
  request returned a cursor, the second request is issued with the map of the first
  carrying that cursor under \<^verbatim>\<open>search_id\<close>.
\<close>

definition cursor_carried ::
  "(reply \<Rightarrow> string option) \<Rightarrow> params \<times> reply \<Rightarrow> params \<times> reply \<Rightarrow> bool" where
  "cursor_carried cursor a b =
     (case cursor (snd a) of
        None \<Rightarrow> True
      | Some c \<Rightarrow> fst b = AList.update ''search_id'' (Some c) (fst a))"

subsection \<open>Sample sessions\<close>

definition example_parameters :: params where
  "example_parameters = [(''p'', Some ''title:x'')]"

text \<open>
  A record as \<^verbatim>\<open>xmltodict\<close> gives it: a dictionary with the control field and the data
  fields.
\<close>

definition example_rec :: "string \<Rightarrow> pyval" where
  "example_rec i =
     PyDict [(PyStr ''controlfield'',
               PyDict [(PyStr ''@tag'', PyStr ''001''), (PyStr ''#text'', PyStr i)]),
             (PyStr ''datafield'',
               PyDict [(PyStr ''@tag'', PyStr ''245''),
                       (PyStr ''subfield'',
                         PyDict [(PyStr ''@code'', PyStr ''a''), (PyStr ''#text'', PyStr ''Title'')])])]"

text \<open>Three pages of a search with six records, each page with a cursor of its own.\<close>

definition example_pages :: "reply list" where
  "example_pages =
     [page 6 (Some ''c1'') (Some (PyList [example_rec ''1'', example_rec ''2''])),
      page 6 (Some ''c2'') (Some (PyList [example_rec ''3'', example_rec ''4''])),
      page 6 (Some ''c3'') (Some (PyList [example_rec ''5'', example_rec ''6'']))]"

text \<open>
  A search with three records in pages of two and one: the second page has a single
  \<^verbatim>\<open>record\<close> element, which arrives as the record itself. The last reply is the page
  after the end, once with an empty \<^verbatim>\<open>collection\<close> element (decoded to \<^verbatim>\<open>None\<close>) and once with
  a \<^verbatim>\<open>collection\<close> that holds only its namespace attribute.
\<close>

definition empty_page :: reply where
  "empty_page =
     Response 200
       \<lparr>json_ok = False,
        xmltodict_parse = Some \<lparr>env_total = TotalInt 3, env_search_id = Some ''c3'',
                                 env_collection = CollectionNone\<rparr>,
        fromstring = None\<rparr>"

definition example_short_pages :: "reply \<Rightarrow> reply list" where
  "example_short_pages last_page =
     [page 3 (Some ''c1'') (Some (PyList [example_rec ''1'', example_rec ''2''])),
      page 3 (Some ''c2'') (Some (example_rec ''3'')),
      last_page]"

text \<open>A search with three records as MARC XML, followed by the page with the empty collection.\<close>

definition example_xml_pages :: "reply list" where
  "example_xml_pages =
     [xml_reply 200 (Some (xml_response ''c1'' ''3'' [Element ''record'' [] (Some ''r1'') [],
                                                     Element ''record'' [] (Some ''r2'') []])),
      xml_reply 200 (Some (xml_response ''c2'' ''3'' [Element ''record'' [] (Some ''r3'') []])),
      xml_reply 200 (Some (xml_response ''c3'' ''3'' []))]"

section \<open>Properties\<close>

lemmas example_defs = example_record_def example_specs_def spec_title_def spec_title_b_def
  spec_subjects_def spec_subject_fields_def spec_local_def spec_author_def spec_shadow_def

lemmas engine_defs = marc_findall_def parse_query_def attr_pred_def get_query_def truthy_def
  get_attr_def Let_def

subsection \<open>Query compiler\<close>

lemma name_get_query [simp]: "name (get_query e) = name e"
  by (simp add: get_query_def Let_def)

lemma element_get_query [simp]: "element (get_query e) = element e"
  by (simp add: get_query_def Let_def)

lemma get_query_idempotent: "get_query (get_query e) = get_query e"
  by (simp add: get_query_def Let_def)

text \<open>
  Claim C4. The selector is a function of the keys \<^verbatim>\<open>field\<close>, \<^verbatim>\<open>ind1\<close> and \<^verbatim>\<open>code\<close> of the
  FieldSpec alone: the element kind, the output name and whatever else the dictionary
  holds do not enter it. With no code (\<^verbatim>\<open>None\<close>) the selector stops at the field level,
  \<^verbatim>\<open>datafield[@tag='F']\<close> followed by the indicator filter when \<^verbatim>\<open>ind1\<close> is given; with a
  code \<open>c\<close>, the empty string included, it is that selector narrowed by
  \<^verbatim>\<open>/subfield[@code='c']\<close>. The selector for the empty code and the selector for no code
  differ, whatever the field and the indicator.
\<close>

theorem get_query_code_absent_or_empty:
  "query (get_query e) =
     query (get_query \<lparr>field = field e, element = k, code = code e, ind1 = ind1 e, name = n\<rparr>) \<and>
   query (get_query (e\<lparr>code := None\<rparr>)) =
     ''datafield[@tag='' @ apos @ field e @ apos @ '']'' @
     (if truthy (ind1 e) then ''[@ind1='' @ apos @ the (ind1 e) @ apos @ '']'' else []) \<and>
   query (get_query (e\<lparr>code := Some c\<rparr>)) =
     query (get_query (e\<lparr>code := None\<rparr>)) @ ''/subfield[@code='' @ apos @ c @ apos @ '']'' \<and>
   query (get_query (e\<lparr>code := Some []\<rparr>)) \<noteq> query (get_query (e\<lparr>code := None\<rparr>))"
  by (simp add: get_query_def Let_def truthy_def)

subsection \<open>Record extractor\<close>

lemma map_of_fold_update_other:
  "\<forall>x\<in>set xs. f x \<noteq> k \<Longrightarrow>
   map_of (fold (\<lambda>x d. AList.update (f x) (g x) d) xs d0) k = map_of d0 k"
  by (induction xs arbitrary: d0) (auto simp: update_conv')

text \<open>The value under a key is the one written by the last FieldSpec with that name.\<close>

lemma extract_xml_lookup:
  assumes "elements = pre @ e # post" and "\<forall>x\<in>set post. name x \<noteq> name e"
  shows "map_of (extract_xml findall record elements) (name e) =
         Some (extract_value findall record (get_query e))"
proof -
  have other: "\<forall>x\<in>set (map get_query post). name x \<noteq> name e"
    using assms(2) by simp
  show ?thesis
    unfolding extract_xml_def Let_def assms(1)
    by (simp add: map_of_fold_update_other [OF other] update_conv')
qed

text \<open>Looking a code up in the dictionary finds the last subfield that carries it.\<close>

lemma map_of_subfield_fold:
  "map_of (fold (\<lambda>e d. AList.update (f e) (g e) d) xs d0) =
   map_of (rev (map (\<lambda>e. (f e, g e)) xs) @ d0)"
  by (induction xs arbitrary: d0)
    (simp_all add: update_conv' fun_eq_iff map_add_def split: option.splits)

lemma example_matches:
  "marc_findall example_record (query (get_query spec_author)) = []"
  "marc_findall example_record (query (get_query spec_title)) =
     [Element ''datafield'' [(''tag'', ''245''), (''ind1'', ''1'')] None
        [Element ''subfield'' [(''code'', ''a'')] (Some ''x'') [],
         Element ''subfield'' [(''code'', ''b'')] (Some ''y'') []]]"
  "marc_findall example_record (query (get_query spec_title_b)) =
     [Element ''subfield'' [(''code'', ''b'')] (Some ''y'') []]"
  "marc_findall example_record (query (get_query spec_subjects)) =
     [Element ''subfield'' [(''code'', ''a'')] (Some ''s1'') [],
      Element ''subfield'' [(''code'', ''a'')] (Some ''s2'') [],
      Element ''subfield'' [(''code'', ''a'')] (Some ''s3'') []]"
  "marc_findall example_record (query (get_query spec_subject_fields)) =
     [Element ''datafield'' [(''tag'', ''650'')] None
        [Element ''subfield'' [(''code'', ''a'')] (Some ''s1'') []],
      Element ''datafield'' [(''tag'', ''650'')] None
        [Element ''subfield'' [(''code'', ''a'')] (Some ''s2'') [],
         Element ''subfield'' [(''code'', ''a'')] (Some ''s3'') []]]"
  "marc_findall example_record (query (get_query spec_local)) =
     [Element ''datafield'' [(''tag'', ''999'')] None []]"
  "marc_findall example_record (query (get_query spec_shadow)) =
     [Element ''subfield'' [(''code'', ''a'')] (Some ''x'') []]"
  by (simp_all add: engine_defs example_defs)

lemma example_names:
  "name spec_author = ''author''" "name spec_title = ''title''"
  "name spec_title_b = ''b''" "name spec_subject_fields = ''subject_fields''"
  "name spec_subjects = ''subjects''" "name spec_local = ''local''"
  "name spec_shadow = ''undl_id''"
  "element spec_author = ''subfield''" "element spec_title = ''field''"
  "element spec_title_b = ''subfield''" "element spec_subject_fields = ''field''"
  "element spec_subjects = ''subfield''" "element spec_local = ''field''"
  "element spec_shadow = ''subfield''"
  by (simp_all add: example_defs)

lemma example_dicts:
  "subfield_dict (Element ''datafield'' [(''tag'', ''245''), (''ind1'', ''1'')] None
      [Element ''subfield'' [(''code'', ''a'')] (Some ''x'') [],
       Element ''subfield'' [(''code'', ''b'')] (Some ''y'') []]) =
     [(PyStr ''a'', PyStr ''x''), (PyStr ''b'', PyStr ''y'')]"
  "subfield_dict (Element ''datafield'' [(''tag'', ''650'')] None
      [Element ''subfield'' [(''code'', ''a'')] (Some ''s1'') []]) = [(PyStr ''a'', PyStr ''s1'')]"
  "subfield_dict (Element ''datafield'' [(''tag'', ''650'')] None
      [Element ''subfield'' [(''code'', ''a'')] (Some ''s2'') [],
       Element ''subfield'' [(''code'', ''a'')] (Some ''s3'') []]) = [(PyStr ''a'', PyStr ''s3'')]"
  by (simp_all add: subfield_dict_def xpath_subfields_def get_attr_def opt_str_def)

text \<open>
  Claim C2. Let \<open>e\<close> be the last FieldSpec of the list that writes the key \<open>name e\<close>, and
  \<open>matches\<close> what the path engine returns for its selector. The value stored under the
  key is \<^verbatim>\<open>None\<close> for no match; for one match \<open>m\<close> it is the one-element list holding the
  dictionary of the subfields of \<open>m\<close> when the kind is \<^verbatim>\<open>field\<close>, and the one-element list
  holding the text of \<open>m\<close> otherwise; for several matches it is the list of the
  dictionaries, one per match, when the kind is \<^verbatim>\<open>field\<close>, and the list of the texts of
  the matches otherwise, both in the order of the matches. The dictionary of \<open>m\<close> maps a
  subfield code to the text of the last subfield below \<open>m\<close> that carries the code.
\<close>

theorem extract_xml_shape:
  assumes "elements = pre @ e # post" and "\<forall>x\<in>set post. name x \<noteq> name e"
  shows "let matches = findall record (query (get_query e));
             v = map_of (extract_xml findall record elements) (name e)
         in (matches = [] \<longrightarrow> v = Some PyNone) \<and>
            (\<forall>m. matches = [m] \<and> element e = ''field'' \<longrightarrow>
                 v = Some (PyList [PyDict (subfield_dict m)])) \<and>
            (\<forall>m. matches = [m] \<and> element e \<noteq> ''field'' \<longrightarrow>
                 v = Some (PyList [opt_str (text_of m)])) \<and>
            (1 < length matches \<and> element e = ''field'' \<longrightarrow>
                 v = Some (PyList (map (\<lambda>m. PyDict (subfield_dict m)) matches))) \<and>
            (1 < length matches \<and> element e \<noteq> ''field'' \<longrightarrow>
                 v = Some (PyList (map (\<lambda>m. opt_str (text_of m)) matches))) \<and>
            (\<forall>m k. map_of (subfield_dict m) k =
                 map_of (rev (map (\<lambda>s. (opt_str (get_attr s ''code''), opt_str (text_of s)))
                                  (xpath_subfields m))) k)"
  unfolding Let_def extract_xml_lookup [OF assms]
  by (auto simp: extract_value_def Let_def subfield_dict_def map_of_subfield_fold)

theorem extract_xml_shape_witness:
  "map_of (extract_xml marc_findall example_record example_specs) ''author'' = Some PyNone \<and>
   map_of (extract_xml marc_findall example_record example_specs) ''title'' =
     Some (PyList [PyDict [(PyStr ''a'', PyStr ''x''), (PyStr ''b'', PyStr ''y'')]]) \<and>
   map_of (extract_xml marc_findall example_record example_specs) ''b'' =
     Some (PyList [PyStr ''y'']) \<and>
   map_of (extract_xml marc_findall example_record example_specs) ''subject_fields'' =
     Some (PyList [PyDict [(PyStr ''a'', PyStr ''s1'')], PyDict [(PyStr ''a'', PyStr ''s3'')]]) \<and>
   map_of (extract_xml marc_findall example_record example_specs) ''subjects'' =
     Some (PyList [PyStr ''s1'', PyStr ''s2'', PyStr ''s3''])"
proof -
  have a: "example_specs =
      [spec_title, spec_title_b, spec_subjects, spec_subject_fields, spec_local] @ spec_author # []"
    and t: "example_specs =
      [] @ spec_title # [spec_title_b, spec_subjects, spec_subject_fields, spec_local, spec_author]"
    and b: "example_specs =
      [spec_title] @ spec_title_b # [spec_subjects, spec_subject_fields, spec_local, spec_author]"
    and f: "example_specs =
      [spec_title, spec_title_b, spec_subjects] @ spec_subject_fields # [spec_local, spec_author]"
    and s: "example_specs =
      [spec_title, spec_title_b] @ spec_subjects # [spec_subject_fields, spec_local, spec_author]"
    by (simp_all add: example_specs_def)
  show ?thesis
    using extract_xml_shape [OF a, of marc_findall example_record]
      extract_xml_shape [OF t, of marc_findall example_record]
      extract_xml_shape [OF b, of marc_findall example_record]
      extract_xml_shape [OF f, of marc_findall example_record]
      extract_xml_shape [OF s, of marc_findall example_record]
    by (simp add: example_matches example_names example_dicts opt_str_def Let_def)
qed

text \<open>
  Claim C3, as stated, fails: a FieldSpec whose output name is \<^verbatim>\<open>undl_id\<close> writes the same
  key after the control field has been stored there. On the sample record such a FieldSpec
  leaves the list of the matched title texts under \<^verbatim>\<open>undl_id\<close>, while the control field
  \<^verbatim>\<open>001\<close> reads \<^verbatim>\<open>4711\<close>.
\<close>

theorem extract_xml_undl_id_shadowed:
  "map_of (extract_xml marc_findall example_record [spec_shadow]) ''undl_id'' =
     Some (PyList [PyStr ''x'']) \<and>
   (case find_controlfield_001 example_record of
      Some c \<Rightarrow> opt_str (text_of c) | None \<Rightarrow> PyNone) = PyStr ''4711''"
proof -
  have "map_of (extract_xml marc_findall example_record [spec_shadow]) (name spec_shadow) =
        Some (extract_value marc_findall example_record (get_query spec_shadow))"
    by (rule extract_xml_lookup [of _ "[]" _ "[]"]) simp_all
  moreover have "find_controlfield_001 example_record =
      Some (Element ''controlfield'' [(''tag'', ''001'')] (Some ''4711'') [])"
    by (simp add: find_controlfield_001_def example_record_def get_attr_def)
  ultimately show ?thesis
    by (simp add: extract_value_def example_matches example_names opt_str_def)
qed

text \<open>
  Claim C3, amended. When no FieldSpec of the list is named \<^verbatim>\<open>undl_id\<close>, the
  extracted record holds under \<^verbatim>\<open>undl_id\<close> the text of the first control field tagged \<^verbatim>\<open>001\<close>, or
  \<^verbatim>\<open>None\<close> when the record has no such control field, whatever the FieldSpecs match.
\<close>

theorem extract_xml_undl_id:
  assumes "\<forall>e\<in>set elements. name e \<noteq> ''undl_id''"
  shows "map_of (extract_xml findall record elements) ''undl_id'' =
         Some (case find_controlfield_001 record of
                 Some c \<Rightarrow> opt_str (text_of c) | None \<Rightarrow> PyNone)"
proof -
  have other: "\<forall>x\<in>set (map get_query elements). name x \<noteq> ''undl_id''"
    using assms by simp
  show ?thesis
    unfolding extract_xml_def Let_def
    by (simp add: map_of_fold_update_other [OF other])
qed

theorem extract_xml_undl_id_witness:
  "map_of (extract_xml marc_findall example_record example_specs) ''undl_id'' =
     Some (PyStr ''4711'') \<and>
   map_of (extract_xml marc_findall (Element ''record'' [] None []) example_specs) ''undl_id'' =
     Some PyNone"
proof -
  have h: "\<forall>e\<in>set example_specs. name e \<noteq> ''undl_id''"
    by (simp add: example_specs_def example_names)
  have c: "find_controlfield_001 example_record =
      Some (Element ''controlfield'' [(''tag'', ''001'')] (Some ''4711'') [])"
    "find_controlfield_001 (Element ''record'' [] None []) = None"
    by (simp_all add: find_controlfield_001_def example_record_def get_attr_def)
  show ?thesis
    using extract_xml_undl_id [OF h, of marc_findall example_record]
      extract_xml_undl_id [OF h, of marc_findall "Element ''record'' [] None []"]
    by (simp add: c opt_str_def)
qed

text \<open>
  Claim C10. When the selector of a FieldSpec of kind \<^verbatim>\<open>field\<close> matches exactly one element
  and that element has no subfield below it, the value stored under the key of the
  FieldSpec is the one-element list holding the empty dictionary, not \<^verbatim>\<open>None\<close>.
\<close>

theorem extract_xml_empty_field:
  assumes "elements = pre @ e # post" and "\<forall>x\<in>set post. name x \<noteq> name e"
    and "findall record (query (get_query e)) = [m]" and "element e = ''field''"
    and "xpath_subfields m = []"
  shows "map_of (extract_xml findall record elements) (name e) = Some (PyList [PyDict []]) \<and>
         map_of (extract_xml findall record elements) (name e) \<noteq> Some PyNone"
  unfolding extract_xml_lookup [OF assms(1,2)]
  by (simp add: extract_value_def Let_def subfield_dict_def assms)

theorem extract_xml_empty_field_witness:
  "map_of (extract_xml marc_findall example_record example_specs) ''local'' =
     Some (PyList [PyDict []])"
proof -
  have l: "example_specs =
      [spec_title, spec_title_b, spec_subjects, spec_subject_fields] @ spec_local # [spec_author]"
    by (simp add: example_specs_def)
  have o: "\<forall>x\<in>set [spec_author]. name x \<noteq> name spec_local"
    by (simp add: example_names)
  have m: "marc_findall example_record (query (get_query spec_local)) =
      [Element ''datafield'' [(''tag'', ''999'')] None []]"
    by (simp add: example_matches)
  have k: "element spec_local = ''field''"
    by (simp add: example_names)
  have z: "xpath_subfields (Element ''datafield'' [(''tag'', ''999'')] None []) = []"
    by (simp add: xpath_subfields_def)
  show ?thesis
    using extract_xml_empty_field
        [of _ _ _ _ marc_findall example_record, OF l o m k z]
    by (simp add: example_names)
qed

subsection \<open>Identifier normalizer\<close>

text \<open>
  Claim C9. The three examples of the claim hold. On a string that holds the literal
  \<^verbatim>\<open>(DHL)\<close> a second time the function deletes that occurrence as well: the list
  \<^verbatim>\<open>["(DHL)12(DHL)34"]\<close> gives \<^verbatim>\<open>"1234"\<close>, whereas removing the prefix and trimming gives
  \<^verbatim>\<open>"12(DHL)34"\<close>.
\<close>

theorem convert_me_id_every_occurrence:
  "convert_me_id (PyList [PyStr ''(DHL)12(DHL)34'']) = PyStr ''1234'' \<and>
   strip (drop (length ''(DHL)'') ''(DHL)12(DHL)34'') = ''12(DHL)34'' \<and>
   convert_me_id (PyList [PyStr ''(DHL)12345 '', PyStr ''other'']) = PyStr ''12345'' \<and>
   convert_me_id (PyList [PyStr ''other'']) = PyNone \<and>
   convert_me_id (PyStr ''scalar'') = PyStr ''scalar''"
  by (simp add: strip_def isspace_def)

subsection \<open>Paginated fetcher and batch driver\<close>

lemmas world_defs = requests_get_def sleep_def Let_def

text \<open>
  Claim C6. A response with status 500 whose body \<^verbatim>\<open>r.json()\<close> can read: the fetcher
  stops after the one request and returns the log with status 500 and no records, and the
  error entry of the log is \<^verbatim>\<open>None\<close>. The parsed message is dropped; only the branch for
  a body that cannot be read assigns \<^verbatim>\<open>error\<close>.
\<close>

theorem undl_request_error_not_populated:
  "undl_request [(''p'', Some ''title:x'')] \<lparr>script = [json_error_reply 500], trace = []\<rparr> =
     ([(''p'', Some ''title:x''), (''format'', Some ''xml'')],
      \<lparr>script = [],
       trace = [Get [(''p'', Some ''title:x''), (''format'', Some ''xml'')] (json_error_reply 500)]\<rparr>,
      Some (Inr (\<lparr>log_status = Some 500, log_total = None, log_count = 0, log_error = None,
                  log_search_id = None\<rparr>, PyList [])))"
  by (simp add: undl_request_def undl_loop.simps world_defs json_error_reply_def)

text \<open>
  When the body cannot be read the error entry is the note with the status code.
\<close>

lemma undl_request_unable_to_parse:
  "st \<noteq> 429 \<Longrightarrow> st \<noteq> 200 \<Longrightarrow>
   snd (snd (undl_request parameters
     \<lparr>script = Response st \<lparr>json_ok = False, xmltodict_parse = x, fromstring = y\<rparr> # rest,
      trace = tr\<rparr>)) =
   Some (Inr (\<lparr>log_status = Some st, log_total = None, log_count = 0,
               log_error = Some (str_int st @ '': Unable to parse error message''),
               log_search_id = None\<rparr>, PyList []))"
  by (simp add: undl_request_def undl_loop.simps world_defs)

text \<open>
  Claim C7. A response with status 200 whose body has a \<^verbatim>\<open>total\<close> and an empty
  \<^verbatim>\<open>collection\<close> but no \<^verbatim>\<open>search_id\<close> element: \<^verbatim>\<open>get_records_xml\<close> does not return, it raises
  \<^verbatim>\<open>AttributeError\<close> from \<^verbatim>\<open>response.find('search_id').text\<close>.
\<close>

theorem get_records_xml_missing_cursor:
  "get_records_xml [(''p'', Some ''title:x'')]
     \<lparr>script = [xml_reply 200 (Some (Element ''response'' [] None
                   [Element ''total'' [] (Some ''0'') [], Element ''collection'' [] None []]))],
      trace = []\<rparr> =
   (\<lparr>script = [],
     trace = [Get [(''p'', Some ''title:x'')]
               (xml_reply 200 (Some (Element ''response'' [] None
                  [Element ''total'' [] (Some ''0'') [], Element ''collection'' [] None []])))]\<rparr>,
    Some (Inl AttributeError))"
  by (simp add: get_records_xml_def xml_fetch_def world_defs xml_reply_def truthy_def
      xml_page_def find_child_def)

text \<open>
  The same situation in \<^verbatim>\<open>undl_request\<close>: the \<^verbatim>\<open>KeyError\<close> is caught, the function returns
  the page with its records, no cursor and no error.
\<close>

lemma undl_request_missing_cursor:
  "undl_request parameters
     \<lparr>script = page t None (Some (PyList records)) # rest, trace = tr\<rparr> =
   (AList.update ''format'' (Some ''xml'') parameters,
    \<lparr>script = rest,
     trace = tr @ [Get (AList.update ''format'' (Some ''xml'') parameters)
                    (page t None (Some (PyList records)))]\<rparr>,
    Some (Inr (\<lparr>log_status = Some 200, log_total = Some t, log_count = length records,
                log_error = None, log_search_id = None\<rparr>, PyList records)))"
  by (simp add: undl_request_def undl_loop.simps world_defs page_def decode_page_def)

lemmas session_defs = example_parameters_def example_pages_def example_xml_pages_def page_def
  xml_reply_def xml_response_def json_error_reply_def example_rec_def example_short_pages_def
  empty_page_def

text \<open>
  Claim C8. The endpoint reports the total 3 and delivers a page of two records, then a
  page of one record, then an empty page. The page of one record arrives as the record
  itself, a dictionary with two keys: \<^verbatim>\<open>undl_request\<close> logs the count 2 for it, and the
  driver appends the two keys to the records gathered. The driver then holds four items,
  not three, and goes on: it issues a third request. On the empty \<^verbatim>\<open>collection\<close> element
  the third call raises \<^verbatim>\<open>TypeError\<close>; on a \<^verbatim>\<open>collection\<close> without records it asks for a
  fourth reply, which the script does not have.
\<close>

theorem get_records_json_single_record_page:
  "snd (snd (undl_request example_parameters
     \<lparr>script = [page 3 (Some ''c2'') (Some (example_rec ''3''))], trace = []\<rparr>)) =
     Some (Inr (\<lparr>log_status = Some 200, log_total = Some 3, log_count = 2, log_error = None,
                 log_search_id = Some ''c2''\<rparr>, example_rec ''3'')) \<and>
   py_iter (example_rec ''3'') = Inr [PyStr ''controlfield'', PyStr ''datafield''] \<and>
   get_records_json example_parameters \<lparr>script = example_short_pages empty_page, trace = []\<rparr> =
     (\<lparr>script = [],
       trace =
         [Get [(''p'', Some ''title:x''), (''format'', Some ''xml'')]
            (page 3 (Some ''c1'') (Some (PyList [example_rec ''1'', example_rec ''2'']))),
          Get [(''p'', Some ''title:x''), (''format'', Some ''xml''), (''search_id'', Some ''c1'')]
            (page 3 (Some ''c2'') (Some (example_rec ''3''))),
          Get [(''p'', Some ''title:x''), (''format'', Some ''xml''), (''search_id'', Some ''c1'')]
            empty_page]\<rparr>,
      Some (Inl TypeError)) \<and>
   get_records_json example_parameters
     \<lparr>script = example_short_pages (page 3 (Some ''c3'') None), trace = []\<rparr> =
     (\<lparr>script = [],
       trace =
         [Get [(''p'', Some ''title:x''), (''format'', Some ''xml'')]
            (page 3 (Some ''c1'') (Some (PyList [example_rec ''1'', example_rec ''2'']))),
          Get [(''p'', Some ''title:x''), (''format'', Some ''xml''), (''search_id'', Some ''c1'')]
            (page 3 (Some ''c2'') (Some (example_rec ''3''))),
          Get [(''p'', Some ''title:x''), (''format'', Some ''xml''), (''search_id'', Some ''c1'')]
            (page 3 (Some ''c3'') None)]\<rparr>,
      None)"
  by (simp add: get_records_json_def undl_request_def undl_loop.simps world_defs session_defs
      decode_page_def)

text \<open>
  With pages that arrive as lists the driver does stop when the count reaches the total:
  a total of 4 in two pages of two records, whatever the script holds after them.
\<close>

lemma get_records_json_stops_on_list_pages:
  "get_records_json parameters
     \<lparr>script = page 4 c1 (Some (PyList [r1, r2])) # page t2 c2 (Some (PyList [r3, r4])) # rest,
      trace = []\<rparr> =
   (\<lparr>script = rest,
     trace = [Get (AList.update ''format'' (Some ''xml'') parameters)
                (page 4 c1 (Some (PyList [r1, r2]))),
              Get (AList.update ''search_id'' c1 (AList.update ''format'' (Some ''xml'') parameters))
                (page t2 c2 (Some (PyList [r3, r4])))]\<rparr>,
    Some (Inr ([\<lparr>log_status = Some 200, log_total = Some 4, log_count = 2, log_error = None,
                 log_search_id = c1\<rparr>,
                \<lparr>log_status = Some 200, log_total = Some t2, log_count = 2, log_error = None,
                 log_search_id = c2\<rparr>],
               [r1, r2, r3, r4])))"
  by (simp add: get_records_json_def undl_request_def undl_loop.simps world_defs page_def
      decode_page_def update_triv update_conv')

subsection \<open>Which cursor a request carries\<close>

lemma exchanges_append [simp]: "exchanges (xs @ ys) = exchanges xs @ exchanges ys"
  by (induction xs rule: exchanges.induct) simp_all

lemma xml_fetch_chain:
  assumes "successively (cursor_carried xml_cursor) (exchanges (trace w))"
    and "exchanges (trace w) \<noteq> [] \<longrightarrow>
           (\<forall>r. cursor_carried xml_cursor (last (exchanges (trace w))) (P, r))"
    and "xml_fetch P w = (w1, res)"
  shows "successively (cursor_carried xml_cursor) (exchanges (trace w1))"
    and "res = Some (Inr (Some b)) \<longrightarrow>
           (\<exists>st. exchanges (trace w1) \<noteq> [] \<and> last (exchanges (trace w1)) = (P, Response st b))"
  using assms
  by (auto simp: xml_fetch_def world_defs successively_append_iff cursor_carried_def xml_cursor_def
      split: list.splits reply.splits if_splits)

lemma xml_page_Continue:
  "xml_page t response = Continue sid tot recs \<Longrightarrow>
   \<exists>s. find_child response ''search_id'' = Some s \<and> sid = text_of s"
  by (auto simp: xml_page_def Let_def split: option.splits sum.splits if_splits)

lemma xml_loop_chain:
  assumes "successively (cursor_carried xml_cursor) (exchanges (trace w))"
    and "exchanges (trace w) \<noteq> [] \<longrightarrow>
           (\<forall>r. cursor_carried xml_cursor (last (exchanges (trace w)))
                  (if truthy search_id then AList.update ''search_id'' search_id params
                   else parameters, r))"
  shows "successively (cursor_carried xml_cursor)
           (exchanges (trace (fst (get_records_xml_loop fuel parameters search_id t
              all_records params w))))"
  using assms
proof (induction fuel arbitrary: search_id t all_records params w)
  case 0
  then show ?case by simp
next
  case (Suc fuel)
  define P where "P = (if truthy search_id then AList.update ''search_id'' search_id params
                       else parameters)"
  obtain w1 res where f: "xml_fetch P w = (w1, res)"
    by (cases "xml_fetch P w") auto
  have b: "exchanges (trace w) \<noteq> [] \<longrightarrow>
           (\<forall>r. cursor_carried xml_cursor (last (exchanges (trace w))) (P, r))"
    using Suc.prems(2) by (simp add: P_def)
  note c = xml_fetch_chain [OF Suc.prems(1) b f]
  have stop: "fst (get_records_xml_loop (Suc fuel) parameters search_id t all_records params w) = w1
      \<Longrightarrow> ?case"
    using c(1) by simp
  show ?case
  proof (cases res)
    case None
    then show ?thesis using f by (intro stop) (simp add: P_def [symmetric])
  next
    case (Some r)
    show ?thesis
    proof (cases r)
      case (Inl x)
      then show ?thesis using f Some by (intro stop) (simp add: P_def [symmetric])
    next
      case (Inr ob)
      show ?thesis
      proof (cases ob)
        case None
        then show ?thesis using f Some Inr by (intro stop) (simp add: P_def [symmetric])
      next
        case (Some body)
        note sb = this
        show ?thesis
        proof (cases "fromstring body")
          case None
          then show ?thesis using f \<open>res = Some r\<close> Inr sb
            by (intro stop) (simp add: P_def [symmetric])
        next
          case (Some response)
          note sr = this
          show ?thesis
          proof (cases "xml_page t response")
            case Break
            then show ?thesis using f \<open>res = Some r\<close> Inr sb sr
              by (intro stop) (simp add: P_def [symmetric])
          next
            case (Raise x)
            then show ?thesis using f \<open>res = Some r\<close> Inr sb sr
              by (intro stop) (simp add: P_def [symmetric])
          next
            case (Continue sid tot recs)
            obtain s where s: "find_child response ''search_id'' = Some s" "sid = text_of s"
              using xml_page_Continue [OF Continue] by blast
            obtain st where l: "exchanges (trace w1) \<noteq> []"
              "last (exchanges (trace w1)) = (P, Response st body)"
              using c(2) [of body] \<open>res = Some r\<close> Inr sb by auto
            have nb: "exchanges (trace w1) \<noteq> [] \<longrightarrow>
               (\<forall>r. cursor_carried xml_cursor (last (exchanges (trace w1)))
                  (if truthy sid then AList.update ''search_id'' sid P else parameters, r))"
              using l s sr
              by (auto simp: cursor_carried_def xml_cursor_def split: if_splits option.splits)
            have "get_records_xml_loop (Suc fuel) parameters search_id t all_records params w =
                  get_records_xml_loop fuel parameters sid tot (all_records @ recs) P w1"
              using f \<open>res = Some r\<close> Inr sb sr Continue by (simp add: P_def [symmetric])
            then show ?thesis
              using Suc.IH [OF c(1) nb] by simp
          qed
        qed
      qed
    qed
  qed
qed


lemma xml_fetch_extends:
  "xml_fetch P w = (w1, res) \<Longrightarrow> \<exists>more. trace w1 = trace w @ more"
  by (auto simp: xml_fetch_def world_defs split: list.splits reply.splits if_splits)

lemma fst_get_records_xml:
  "fst (get_records_xml parameters w) =
   fst (get_records_xml_loop (Suc (length (script w))) parameters None None [] parameters w)"
  by (simp add: get_records_xml_def split: prod.splits option.splits sum.splits)

lemma xml_loop_extends:
  "\<exists>more. trace (fst (get_records_xml_loop fuel parameters search_id t all_records params w)) =
          trace w @ more"
proof (induction fuel arbitrary: search_id t all_records params w)
  case 0
  then show ?case by simp
next
  case (Suc fuel)
  define P where "P = (if truthy search_id then AList.update ''search_id'' search_id params
                       else parameters)"
  obtain w1 res where f: "xml_fetch P w = (w1, res)"
    by (cases "xml_fetch P w") auto
  obtain m1 where m1: "trace w1 = trace w @ m1"
    using xml_fetch_extends [OF f] by blast
  have "\<exists>more. trace (fst (get_records_xml_loop (Suc fuel) parameters search_id t all_records
           params w)) = trace w1 @ more"
    using f Suc.IH [of _ _ _ P w1]
    by (auto simp: P_def [symmetric] split: option.splits sum.splits page_step.splits)
  then show ?case using m1 by auto
qed

lemma xml_loop_step_extends:
  assumes "xml_fetch P w = (w1, res)"
    and "P = (if truthy search_id then AList.update ''search_id'' search_id params else parameters)"
  shows "\<exists>more. trace (fst (get_records_xml_loop (Suc fuel) parameters search_id t all_records
           params w)) = trace w1 @ more"
  using assms(1) xml_loop_extends [of fuel parameters _ _ _ P w1]
  by (auto simp: assms(2) [symmetric] split: option.splits sum.splits page_step.splits)

lemma xml_first_request:
  "\<exists>more. trace (fst (get_records_xml parameters \<lparr>script = r # rest, trace = []\<rparr>)) =
          Get parameters r # more"
proof -
  let ?w = "\<lparr>script = r # rest, trace = []\<rparr> :: world"
  obtain w1 res where f: "xml_fetch parameters ?w = (w1, res)"
    by (cases "xml_fetch parameters ?w") auto
  have h: "\<exists>more. trace w1 = Get parameters r # more"
    using f by (auto simp: xml_fetch_def world_defs split: list.splits reply.splits if_splits)
  have p: "parameters = (if truthy None then AList.update ''search_id'' None parameters
                         else parameters)"
    by (simp add: truthy_def)
  have "\<exists>more. trace (fst (get_records_xml_loop (Suc (length (script ?w))) parameters None None []
           parameters ?w)) = trace w1 @ more"
    by (rule xml_loop_step_extends [OF f p])
  then have "\<exists>more. trace (fst (get_records_xml_loop (Suc (length (script ?w))) parameters None
           None [] parameters ?w)) = Get parameters r # more"
    using h by auto
  then show ?thesis
    by (simp only: fst_get_records_xml)
qed

lemma xml_session_chain:
  "successively (cursor_carried xml_cursor)
     (exchanges (trace (fst (get_records_xml parameters \<lparr>script = sc, trace = []\<rparr>))))"
  unfolding fst_get_records_xml
  by (rule xml_loop_chain) simp_all

text \<open>The requests of one call of \<^verbatim>\<open>undl_request\<close>: at most two, all with the same map.\<close>

lemma undl_request_requests:
  assumes "undl_request parameters w = (P, w1, res)"
  shows "P = AList.update ''format'' (Some ''xml'') parameters"
    and "\<exists>j. (res \<noteq> None \<longrightarrow> 0 < j) \<and> j \<le> 2 \<and>
           map fst (exchanges (trace w1)) = map fst (exchanges (trace w)) @ replicate j P"
proof -
  show p: "P = AList.update ''format'' (Some ''xml'') parameters"
    using assms by (auto simp: undl_request_def Let_def split: prod.splits)
  have "(res = None \<and> map fst (exchanges (trace w1)) = map fst (exchanges (trace w))) \<or>
        map fst (exchanges (trace w1)) = map fst (exchanges (trace w)) @ [P] \<or>
        map fst (exchanges (trace w1)) = map fst (exchanges (trace w)) @ [P, P]"
    using assms
    by (auto simp: undl_request_def undl_loop.simps world_defs
        split: prod.splits list.splits reply.splits if_splits option.splits)
  then consider (a) "res = None" "map fst (exchanges (trace w1)) = map fst (exchanges (trace w))"
    | (b) "map fst (exchanges (trace w1)) = map fst (exchanges (trace w)) @ [P]"
    | (c) "map fst (exchanges (trace w1)) = map fst (exchanges (trace w)) @ [P, P]"
    by blast
  then show "\<exists>j. (res \<noteq> None \<longrightarrow> 0 < j) \<and> j \<le> 2 \<and>
           map fst (exchanges (trace w1)) = map fst (exchanges (trace w)) @ replicate j P"
  proof cases
    case a
    then show ?thesis by (intro exI [of _ 0]) simp
  next
    case b
    then show ?thesis by (intro exI [of _ 1]) simp
  next
    case c
    then show ?thesis by (intro exI [of _ 2]) (simp add: numeral_2_eq_2)
  qed
qed

lemma json_loop_requests:
  assumes "t \<noteq> None" and "map_of sp ''format'' = Some (Some ''xml'')"
  shows "\<exists>k. map fst (exchanges (trace (fst (get_records_json_loop fuel sp all_records t logs w)))) =
             map fst (exchanges (trace w)) @ replicate k sp"
proof (induction fuel arbitrary: all_records logs w)
  case 0
  then show ?case by (intro exI [of _ 0]) simp
next
  case (Suc fuel)
  show ?case
  proof (cases "Some (int (length all_records)) \<noteq> t")
    case False
    then show ?thesis by (intro exI [of _ 0]) simp
  next
    case True
    obtain P w1 res where u: "undl_request sp w = (P, w1, res)"
      by (cases "undl_request sp w") auto
    have P: "P = sp"
      using undl_request_requests(1) [OF u] assms(2) by (simp add: update_triv)
    obtain j where j: "map fst (exchanges (trace w1)) = map fst (exchanges (trace w)) @ replicate j sp"
      using undl_request_requests(2) [OF u] P by blast
    show ?thesis
    proof (cases res)
      case None
      then show ?thesis using True u j by (intro exI [of _ j]) simp
    next
      case (Some r)
      show ?thesis
      proof (cases r)
        case (Inl x)
        then show ?thesis using True u j Some by (intro exI [of _ j]) simp
      next
        case (Inr lr)
        note r = this
        obtain log records where lr: "lr = (log, records)" by (cases lr)
        show ?thesis
        proof (cases "py_iter records")
          case (Inl x)
          then show ?thesis using True u j Some r lr by (intro exI [of _ j]) simp
        next
          case (Inr items)
          obtain k where k: "map fst (exchanges (trace (fst (get_records_json_loop fuel sp
              (all_records @ items) t (logs @ [log]) w1)))) =
              map fst (exchanges (trace w1)) @ replicate k sp"
            using Suc.IH by blast
          obtain tv where tv: "t = Some tv"
            using assms(1) by auto
          have "get_records_json_loop (Suc fuel) sp all_records t logs w =
                get_records_json_loop fuel sp (all_records @ items) t (logs @ [log]) w1"
            using True u Some r lr P Inr by (simp add: Let_def tv)
          then show ?thesis
            using k j by (intro exI [of _ "j + k"]) (simp add: replicate_add)
        qed
      qed
    qed
  qed
qed

text \<open>
  Once a page has reported the total, the map is never written again: every later request
  of \<^verbatim>\<open>get_records_json\<close> carries the cursor logged for the first page.
\<close>

lemma get_records_json_keeps_first_cursor:
  assumes u: "undl_request parameters w = (P0, w1, Some (Inr (log1, records1)))"
    and t: "log_total log1 = Some t"
  shows "\<exists>k. map fst (exchanges (trace (fst (get_records_json parameters w)))) =
             map fst (exchanges (trace w1)) @
             replicate k (AList.update ''search_id'' (log_search_id log1) P0)"
proof (cases "py_iter records1")
  case (Inl x)
  then have "fst (get_records_json parameters w) = w1"
    using u by (simp add: get_records_json_def)
  then show ?thesis by (intro exI [of _ 0]) simp
next
  case (Inr items)
  have p: "P0 = AList.update ''format'' (Some ''xml'') parameters"
    by (rule undl_request_requests(1) [OF u])
  let ?P1 = "AList.update ''search_id'' (log_search_id log1) P0"
  have f: "map_of ?P1 ''format'' = Some (Some ''xml'')"
    by (simp add: p update_conv')
  have n: "Some t \<noteq> None"
    by simp
  have "get_records_json parameters w =
        get_records_json_loop (length (script w)) ?P1 items (Some t) [log1] w1"
    using u t Inr by (simp add: get_records_json_def Let_def)
  then show ?thesis
    using json_loop_requests [OF n f, of "length (script w)" items "[log1]" w1] by simp
qed

text \<open>
  The sibling \<^verbatim>\<open>get_records_xml\<close> writes the cursor at the head of every iteration: its first
  request is issued with the caller's map, and whenever a reply with status 200 returned
  a cursor that is not empty, the next request is issued with the map of the request
  before it carrying that cursor under \<^verbatim>\<open>search_id\<close>.
\<close>

lemma get_records_xml_carries_cursor:
  "(\<exists>more. trace (fst (get_records_xml parameters \<lparr>script = r # rest, trace = []\<rparr>)) =
           Get parameters r # more) \<and>
   successively (cursor_carried xml_cursor)
     (exchanges (trace (fst (get_records_xml parameters \<lparr>script = sc, trace = []\<rparr>))))"
  using xml_first_request xml_session_chain by blast

lemma example_json_session:
  "get_records_json example_parameters \<lparr>script = example_pages, trace = []\<rparr> =
   (\<lparr>script = [],
     trace =
       [Get [(''p'', Some ''title:x''), (''format'', Some ''xml'')] (example_pages ! 0),
        Get [(''p'', Some ''title:x''), (''format'', Some ''xml''), (''search_id'', Some ''c1'')]
          (example_pages ! 1),
        Get [(''p'', Some ''title:x''), (''format'', Some ''xml''), (''search_id'', Some ''c1'')]
          (example_pages ! 2)]\<rparr>,
    Some (Inr ([\<lparr>log_status = Some 200, log_total = Some 6, log_count = 2, log_error = None,
                 log_search_id = Some ''c1''\<rparr>,
                \<lparr>log_status = Some 200, log_total = Some 6, log_count = 2, log_error = None,
                 log_search_id = Some ''c2''\<rparr>,
                \<lparr>log_status = Some 200, log_total = Some 6, log_count = 2, log_error = None,
                 log_search_id = Some ''c3''\<rparr>],
               [example_rec ''1'', example_rec ''2'', example_rec ''3'', example_rec ''4'',
                example_rec ''5'', example_rec ''6''])))"
  by (simp add: get_records_json_def undl_request_def undl_loop.simps world_defs
      example_parameters_def example_pages_def page_def decode_page_def)

text \<open>
  Claim C1. A search with six records in three pages of two, whose pages return the
  cursors \<^verbatim>\<open>c1\<close>, \<^verbatim>\<open>c2\<close> and \<^verbatim>\<open>c3\<close>. The first request of \<^verbatim>\<open>get_records_json\<close> carries the
  caller's map with \<^verbatim>\<open>format\<close> set to \<^verbatim>\<open>xml\<close> and the second carries the cursor \<^verbatim>\<open>c1\<close>; the
  third request still carries \<^verbatim>\<open>c1\<close>, not the cursor \<^verbatim>\<open>c2\<close> of the page before it, so the rule
  for two requests in a row does not hold along the trace. On the same search
  \<^verbatim>\<open>get_records_xml\<close> sends \<^verbatim>\<open>c1\<close> and then \<^verbatim>\<open>c2\<close>.
\<close>

theorem third_request_carries_first_cursor:
  "map fst (exchanges (trace (fst (get_records_json example_parameters
      \<lparr>script = example_pages, trace = []\<rparr>)))) =
     [[(''p'', Some ''title:x''), (''format'', Some ''xml'')],
      [(''p'', Some ''title:x''), (''format'', Some ''xml''), (''search_id'', Some ''c1'')],
      [(''p'', Some ''title:x''), (''format'', Some ''xml''), (''search_id'', Some ''c1'')]] \<and>
   map json_cursor example_pages = [Some ''c1'', Some ''c2'', Some ''c3''] \<and>
   \<not> successively (cursor_carried json_cursor)
       (exchanges (trace (fst (get_records_json example_parameters
          \<lparr>script = example_pages, trace = []\<rparr>)))) \<and>
   map fst (exchanges (trace (fst (get_records_xml example_parameters
      \<lparr>script = example_xml_pages, trace = []\<rparr>)))) =
     [[(''p'', Some ''title:x'')],
      [(''p'', Some ''title:x''), (''search_id'', Some ''c1'')],
      [(''p'', Some ''title:x''), (''search_id'', Some ''c2'')]]"
proof -
  have x: "get_records_xml example_parameters \<lparr>script = example_xml_pages, trace = []\<rparr> =
   (\<lparr>script = [],
     trace =
       [Get [(''p'', Some ''title:x'')] (example_xml_pages ! 0),
        Get [(''p'', Some ''title:x''), (''search_id'', Some ''c1'')] (example_xml_pages ! 1),
        Get [(''p'', Some ''title:x''), (''search_id'', Some ''c2'')] (example_xml_pages ! 2)]\<rparr>,
    Some (Inr (Element ''collection'' [] None
      [Element ''record'' [] (Some ''r1'') [], Element ''record'' [] (Some ''r2'') [],
       Element ''record'' [] (Some ''r3'') []])))"
    by (simp add: get_records_xml_def xml_fetch_def world_defs session_defs truthy_def
        xml_page_def find_child_def findall_children_def)
  show ?thesis
    by (simp add: example_json_session x)
      (simp add: example_parameters_def example_pages_def page_def json_cursor_def
        cursor_carried_def)
qed

subsection \<open>Rate limiting\<close>

text \<open>
  Claim C5, as stated, fails for \<^verbatim>\<open>get_records_xml\<close>. Two responses with status 429 in a
  row: after the one retry the second response is handed to the parser whatever its
  status, the parse error ends the loop, and the function returns the tree of the records
  gathered so far. The result is the one an empty search gives; no error is in it.
\<close>

theorem get_records_xml_double_429:
  "get_records_xml example_parameters
     \<lparr>script = [xml_reply 429 None, xml_reply 429 None], trace = []\<rparr> =
   (\<lparr>script = [],
     trace = [Get [(''p'', Some ''title:x'')] (xml_reply 429 None), Sleep 300,
              Get [(''p'', Some ''title:x'')] (xml_reply 429 None)]\<rparr>,
    Some (Inr (Element ''collection'' [] None []))) \<and>
   snd (get_records_xml example_parameters
     \<lparr>script = [xml_reply 200 (Some (xml_response ''c1'' ''0'' []))], trace = []\<rparr>) =
   Some (Inr (Element ''collection'' [] None []))"
  by (simp add: get_records_xml_def xml_fetch_def world_defs session_defs truthy_def
      xml_page_def find_child_def)

text \<open>
  Claim C5, amended. On a response with status 429 \<^verbatim>\<open>undl_request\<close> pauses for 300 seconds
  and issues the same request again, once: a call makes at most two requests. When the
  second response has status 429 as well, it pauses once more and returns the log with
  status 429, no total, no records, no cursor and the rate-limit message as the error.
  \<^verbatim>\<open>get_records_xml\<close> pauses for 300 seconds after a 429 and issues the same request
  again, once for each page.
\<close>

theorem rate_limit_retry:
  "(script w = Response 429 b1 # Response 429 b2 # rest \<longrightarrow>
      undl_request parameters w =
        (AList.update ''format'' (Some ''xml'') parameters,
         \<lparr>script = rest,
          trace = trace w @
            [Get (AList.update ''format'' (Some ''xml'') parameters) (Response 429 b1), Sleep 300,
             Get (AList.update ''format'' (Some ''xml'') parameters) (Response 429 b2), Sleep 300]\<rparr>,
         Some (Inr (\<lparr>log_status = Some 429, log_total = None, log_count = 0,
                     log_error = Some too_many_requests, log_search_id = None\<rparr>, PyList [])))) \<and>
   (script w = Response 429 b1 # r # rest \<longrightarrow>
      (\<exists>more. trace (fst (snd (undl_request parameters w))) =
         trace w @
         [Get (AList.update ''format'' (Some ''xml'') parameters) (Response 429 b1), Sleep 300,
          Get (AList.update ''format'' (Some ''xml'') parameters) r] @ more)) \<and>
   length (exchanges (trace (fst (snd (undl_request parameters w))))) \<le>
     length (exchanges (trace w)) + 2 \<and>
   (script w = Response 429 b1 # r # rest \<longrightarrow>
      fst (xml_fetch params w) =
        \<lparr>script = rest,
         trace = trace w @ [Get params (Response 429 b1), Sleep 300, Get params r]\<rparr>)"
proof (intro conjI impI)
  assume "script w = Response 429 b1 # Response 429 b2 # rest"
  then show "undl_request parameters w =
        (AList.update ''format'' (Some ''xml'') parameters,
         \<lparr>script = rest,
          trace = trace w @
            [Get (AList.update ''format'' (Some ''xml'') parameters) (Response 429 b1), Sleep 300,
             Get (AList.update ''format'' (Some ''xml'') parameters) (Response 429 b2), Sleep 300]\<rparr>,
         Some (Inr (\<lparr>log_status = Some 429, log_total = None, log_count = 0,
                     log_error = Some too_many_requests, log_search_id = None\<rparr>, PyList [])))"
    by (simp add: undl_request_def undl_loop.simps world_defs)
next
  assume "script w = Response 429 b1 # r # rest"
  then show "\<exists>more. trace (fst (snd (undl_request parameters w))) =
         trace w @
         [Get (AList.update ''format'' (Some ''xml'') parameters) (Response 429 b1), Sleep 300,
          Get (AList.update ''format'' (Some ''xml'') parameters) r] @ more"
    by (cases r) (auto simp: undl_request_def undl_loop.simps world_defs split: option.splits)
next
  obtain P w1 res where u: "undl_request parameters w = (P, w1, res)"
    by (cases "undl_request parameters w") auto
  obtain j where "j \<le> 2"
    "map fst (exchanges (trace w1)) = map fst (exchanges (trace w)) @ replicate j P"
    using undl_request_requests(2) [OF u] by blast
  then have "length (map fst (exchanges (trace w1))) \<le> length (exchanges (trace w)) + 2"
    by simp
  then show "length (exchanges (trace (fst (snd (undl_request parameters w))))) \<le>
     length (exchanges (trace w)) + 2"
    using u by simp
next
  assume "script w = Response 429 b1 # r # rest"
  then show "fst (xml_fetch params w) =
        \<lparr>script = rest,
         trace = trace w @ [Get params (Response 429 b1), Sleep 300, Get params r]\<rparr>"
    by (cases r) (simp_all add: xml_fetch_def world_defs)
qed

theorem rate_limit_retry_witness:
  "undl_request example_parameters
     \<lparr>script = [json_error_reply 429, json_error_reply 429, json_error_reply 500], trace = []\<rparr> =
   ([(''p'', Some ''title:x''), (''format'', Some ''xml'')],
    \<lparr>script = [json_error_reply 500],
     trace =
       [Get [(''p'', Some ''title:x''), (''format'', Some ''xml'')] (json_error_reply 429),
        Sleep 300,
        Get [(''p'', Some ''title:x''), (''format'', Some ''xml'')] (json_error_reply 429),
        Sleep 300]\<rparr>,
    Some (Inr (\<lparr>log_status = Some 429, log_total = None, log_count = 0,
                log_error = Some too_many_requests, log_search_id = None\<rparr>, PyList []))) \<and>
   fst (xml_fetch example_parameters
     \<lparr>script = [xml_reply 429 None, xml_reply 429 None], trace = []\<rparr>) =
   \<lparr>script = [],
    trace = [Get example_parameters (xml_reply 429 None), Sleep 300,
             Get example_parameters (xml_reply 429 None)]\<rparr>"
proof -
  have a: "script \<lparr>script = [json_error_reply 429, json_error_reply 429, json_error_reply 500],
                   trace = []\<rparr> =
           Response 429 \<lparr>json_ok = True, xmltodict_parse = None, fromstring = None\<rparr> #
           Response 429 \<lparr>json_ok = True, xmltodict_parse = None, fromstring = None\<rparr> #
           [json_error_reply 500 :: reply]"
    by (simp add: json_error_reply_def)
  have b: "script \<lparr>script = [xml_reply 429 None, xml_reply 429 None], trace = []\<rparr> =
           Response 429 \<lparr>json_ok = False, xmltodict_parse = None, fromstring = None\<rparr> #
           (xml_reply 429 None :: reply) # []"
    by (simp add: xml_reply_def)
  show ?thesis
    using rate_limit_retry [THEN conjunct1, rule_format, OF a, of example_parameters]
      rate_limit_retry [THEN conjunct2, THEN conjunct2, THEN conjunct2, rule_format, OF b,
        of example_parameters]
    by (simp add: json_error_reply_def xml_reply_def example_parameters_def)
qed

end
